theory Spec2Isabelle
  imports Main
begin

section \<open>The license-package generator (src/index.js)\<close>

text \<open>
  The generator is one script: a bootstrap block that loads the text of the CC0 waiver
  (lines 20-28) and an asynchronous function \<open>main\<close> (lines 30-170) that checks the
  command line, interviews the operator, derives the package name, renders the module,
  has it compiled, writes four files into a new directory and commits them to a new
  repository. The model below follows the script line by line. JavaScript strings are
  modelled as \<open>string\<close>, one \<open>char\<close> per code unit; \<open>undefined\<close> is \<open>None\<close>.
\<close>

subsection \<open>JavaScript values the script relies on\<close>

text \<open>String coercion of a possibly undefined value, as \<open>+\<close> and template literals do it.\<close>

definition String :: "string option \<Rightarrow> string" where
  "String v = (case v of None \<Rightarrow> ''undefined'' | Some s \<Rightarrow> s)"

text \<open>
  \<open>Object.prototype.toString\<close>, which a promise and a plain object inherit:
  \<open>p.toString('utf-8')\<close> on a promise is \<open>[object Promise]\<close>, and the string coercion of
  a plain object is \<open>[object Object]\<close>.
\<close>

definition Promise_toString :: string where
  "Promise_toString = ''[object Promise]''"

definition Object_toString :: string where
  "Object_toString = ''[object Object]''"

definition nl :: string where
  "nl = [CHR 0x0A]"

definition dquote :: char where
  "dquote = CHR 0x22"

definition backslash :: char where
  "backslash = CHR 0x5C"

definition hex_digit :: "nat \<Rightarrow> char" where
  "hex_digit n = (''0123456789abcdef'') ! (n mod 16)"

text \<open>
  \<open>JSON.stringify\<close> on a string (the QuoteJSONString operation): the quote and the
  backslash are escaped, the control characters below U+0020 get their short escape or
  \<open>\u00XX\<close>, every other code unit is copied.
\<close>

definition quote_char :: "char \<Rightarrow> string" where
  "quote_char c =
     (if c = dquote then [backslash, dquote]
      else if c = backslash then [backslash, backslash]
      else if c = CHR 0x08 then [backslash, CHR ''b'']
      else if c = CHR 0x0C then [backslash, CHR ''f'']
      else if c = CHR 0x0A then [backslash, CHR ''n'']
      else if c = CHR 0x0D then [backslash, CHR ''r'']
      else if c = CHR 0x09 then [backslash, CHR ''t'']
      else if (of_char c :: nat) < 32
        then [backslash, CHR ''u'', CHR ''0'', CHR ''0'',
              hex_digit ((of_char c :: nat) div 16), hex_digit (of_char c)]
      else [c])"

definition JSON_stringify :: "string \<Rightarrow> string" where
  "JSON_stringify s = dquote # concat (map quote_char s) @ [dquote]"

text \<open>\<open>JSON.stringify(undefined)\<close> is \<open>undefined\<close>; a template literal prints it so.\<close>

definition JSON_stringify_value :: "string option \<Rightarrow> string option" where
  "JSON_stringify_value v = map_option JSON_stringify v"

subsection \<open>Reading a string literal back\<close>

text \<open>
  The inverse direction, used to say what a consumer of the generated module sees in a
  binding: the value of a double-quoted literal at the head of a text, and the rest of
  the text. Code units are bytes here, so \<open>\uXXXX\<close> is read when it is below 256.
\<close>

definition hex_value :: "char \<Rightarrow> nat option" where
  "hex_value c =
     (let n = (of_char c :: nat) in
      if 48 \<le> n \<and> n \<le> 57 then Some (n - 48)
      else if 97 \<le> n \<and> n \<le> 102 then Some (n - 87)
      else if 65 \<le> n \<and> n \<le> 70 then Some (n - 55)
      else None)"

fun unquote_body :: "string \<Rightarrow> (string \<times> string) option" where
  "unquote_body [] = None"
| "unquote_body [c] = (if c = dquote then Some ([], []) else None)"
| "unquote_body (c # d # cs) =
     (if c = dquote then Some ([], d # cs)
      else if c = backslash then
        (if d = CHR ''u'' then
           (case cs of
              h1 # h2 # h3 # h4 # rest \<Rightarrow>
                (case (hex_value h1, hex_value h2, hex_value h3, hex_value h4) of
                   (Some a, Some b, Some e, Some f) \<Rightarrow>
                     (if a = 0 \<and> b = 0 then
                        (case unquote_body rest of
                           None \<Rightarrow> None
                         | Some (s, r) \<Rightarrow> Some (char_of (e * 16 + f) # s, r))
                      else None)
                 | _ \<Rightarrow> None)
            | _ \<Rightarrow> None)
         else
           (case (if d = dquote then Some dquote
                  else if d = backslash then Some backslash
                  else if d = CHR ''/'' then Some (CHR ''/'')
                  else if d = CHR ''b'' then Some (CHR 0x08)
                  else if d = CHR ''f'' then Some (CHR 0x0C)
                  else if d = CHR ''n'' then Some (CHR 0x0A)
                  else if d = CHR ''r'' then Some (CHR 0x0D)
                  else if d = CHR ''t'' then Some (CHR 0x09)
                  else None) of
              None \<Rightarrow> None
            | Some x \<Rightarrow>
                (case unquote_body cs of
                   None \<Rightarrow> None
                 | Some (s, r) \<Rightarrow> Some (x # s, r))))
      else if (of_char c :: nat) < 32 then None
      else
        (case unquote_body (d # cs) of
           None \<Rightarrow> None
         | Some (s, r) \<Rightarrow> Some (c # s, r)))"

definition unquote :: "string \<Rightarrow> (string \<times> string) option" where
  "unquote t = (case t of [] \<Rightarrow> None | c # cs \<Rightarrow> if c = dquote then unquote_body cs else None)"

text \<open>The text that follows the first occurrence of a marker.\<close>

fun strip_prefix :: "string \<Rightarrow> string \<Rightarrow> string option" where
  "strip_prefix [] t = Some t"
| "strip_prefix (p # ps) [] = None"
| "strip_prefix (p # ps) (c # cs) = (if p = c then strip_prefix ps cs else None)"

fun after_marker :: "string \<Rightarrow> string \<Rightarrow> string option" where
  "after_marker m [] = strip_prefix m []"
| "after_marker m (c # cs) =
     (case strip_prefix m (c # cs) of
        Some r \<Rightarrow> Some r
      | None \<Rightarrow> after_marker m cs)"

text \<open>The value of the exported binding \<open>b\<close> of a source-form module.\<close>

definition binding_value :: "string \<Rightarrow> string \<Rightarrow> string option" where
  "binding_value b module =
     (case after_marker (''export const '' @ b @ '' = '') module of
        None \<Rightarrow> None
      | Some r \<Rightarrow> map_option fst (unquote r))"

subsection \<open>Paths (\<open>path.join\<close>, POSIX)\<close>

text \<open>
  \<open>join\<close> is Node's \<open>path.join\<close> on a POSIX system: the non-empty arguments are
  joined with a slash and the result is normalised. Normalisation drops empty and
  \<open>.\<close> segments, lets \<open>..\<close> remove the segment before it (or keeps it, in a relative
  path with nothing left to remove), and keeps a leading and a trailing slash.
\<close>

fun segments :: "string \<Rightarrow> string list" where
  "segments [] = [[]]"
| "segments (c # cs) =
     (if c = CHR ''/'' then [] # segments cs
      else (case segments cs of
              [] \<Rightarrow> [[c]]
            | s # ss \<Rightarrow> (c # s) # ss))"

fun normalizeSegments :: "bool \<Rightarrow> string list \<Rightarrow> string list \<Rightarrow> string list" where
  "normalizeSegments allowAboveRoot res [] = res"
| "normalizeSegments allowAboveRoot res (s # ss) =
     (if s = [] \<or> s = ''.'' then normalizeSegments allowAboveRoot res ss
      else if s = ''..'' then
        (if res \<noteq> [] \<and> last res \<noteq> ''..''
           then normalizeSegments allowAboveRoot (butlast res) ss
         else if allowAboveRoot
           then normalizeSegments allowAboveRoot (res @ [''..'']) ss
         else normalizeSegments allowAboveRoot res ss)
      else normalizeSegments allowAboveRoot (res @ [s]) ss)"

fun intercalate :: "string \<Rightarrow> string list \<Rightarrow> string" where
  "intercalate sep [] = []"
| "intercalate sep [x] = x"
| "intercalate sep (x # y # ys) = x @ sep @ intercalate sep (y # ys)"

definition normalizeString :: "string \<Rightarrow> bool \<Rightarrow> string" where
  "normalizeString path allowAboveRoot =
     intercalate ''/'' (normalizeSegments allowAboveRoot [] (segments path))"

definition normalize :: "string \<Rightarrow> string" where
  "normalize path =
     (if path = [] then ''.''
      else
        let isAbsolute = (hd path = CHR ''/'');
            trailingSeparator = (last path = CHR ''/'');
            p = normalizeString path (\<not> isAbsolute)
        in if p = [] then (if isAbsolute then ''/'' else if trailingSeparator then ''./'' else ''.'')
           else (if isAbsolute then ''/'' else []) @ p @ (if trailingSeparator then ''/'' else []))"

definition join :: "string \<Rightarrow> string \<Rightarrow> string" where
  "join a b =
     (if a = [] \<and> b = [] then ''.''
      else if a = [] then normalize b
      else if b = [] then normalize a
      else normalize (a @ ''/'' @ b))"

subsection \<open>The answer record (lines 42-96)\<close>

text \<open>
  The object that \<open>inquirer.prompt\<close> resolves to. A question whose \<open>when\<close> is false is
  not asked and leaves its property undefined. The confirm question of line 90 is stored
  under \<open>license\<close>.
\<close>

record answers =
  spdx :: bool
  name :: "string option"
  shortName :: "string option"
  longName :: string
  version :: "string option"
  authorName :: string
  authorEmail :: string
  license :: bool

text \<open>The \<open>validate\<close> callbacks of the input questions: \<open>/\s/\<close> and the empty string.\<close>

definition whitespace :: "char \<Rightarrow> bool" where
  "whitespace c = ((of_char c :: nat) \<in> {9, 10, 11, 12, 13, 32, 160})"

definition no_whitespace :: "string \<Rightarrow> bool" where
  "no_whitespace s = (\<not> list_ex whitespace s)"

text \<open>
  What the interview guarantees of its result, read off the \<open>when\<close> and \<open>validate\<close>
  callbacks of the input questions; \<open>spdxLicenseIds\<close> is the identifier list of the
  package \<open>spdx-license-ids\<close>, a parameter here. A confirm question resolves to the
  operator's yes or no as it is given, so nothing is guaranteed of \<open>license\<close>.
\<close>

definition validated :: "string list \<Rightarrow> answers \<Rightarrow> bool" where
  "validated spdxLicenseIds a =
     ((if spdx a
         then (case name a of None \<Rightarrow> False | Some i \<Rightarrow> i \<in> set spdxLicenseIds)
              \<and> shortName a = None \<and> version a = None
         else name a = None
              \<and> (case shortName a of None \<Rightarrow> False | Some s \<Rightarrow> no_whitespace s)
              \<and> (case version a of None \<Rightarrow> False | Some v \<Rightarrow> no_whitespace v))
      \<and> longName a \<noteq> [] \<and> authorName a \<noteq> [] \<and> authorEmail a \<noteq> [])"

subsection \<open>The package identity and the manifest (lines 98-123)\<close>

text \<open>Lines 98-100: a license that is not SPDX-listed is named from its short name and version.\<close>

definition resolve_name :: "answers \<Rightarrow> answers" where
  "resolve_name a =
     (if \<not> spdx a
        then a\<lparr>name := Some (String (shortName a) @ ''-'' @ String (version a))\<rparr>
      else a)"

record person =
  person_name :: string
  email :: string

record repository_ref =
  repo_type :: string
  url :: string

record package =
  pkg_name :: string
  pkg_version :: string
  description :: string
  pkg_keywords :: "string list"
  pkg_license :: string
  author :: person
  esnext :: string
  main_entry :: string
  repository :: repository_ref

text \<open>\<open>.filter(x => x != null)\<close>: both \<open>null\<close> and \<open>undefined\<close> are dropped.\<close>

fun filter_non_null :: "string option list \<Rightarrow> string list" where
  "filter_non_null [] = []"
| "filter_non_null (None # xs) = filter_non_null xs"
| "filter_non_null (Some x # xs) = x # filter_non_null xs"

text \<open>Lines 102-123, on the answers after line 100.\<close>

definition make_package :: "answers \<Rightarrow> package" where
  "make_package a =
     \<lparr> pkg_name = ''@license-project/'' @ String (name a),
       pkg_version = ''1.0.0'',
       description = longName a,
       pkg_keywords = filter_non_null
         [Some ''license-project'',
          Some ''license'',
          (if spdx a then Some ''spdx'' else None),
          name a],
       pkg_license = ''CC0-1.0'',
       author = \<lparr> person_name = authorName a, email = authorEmail a \<rparr>,
       esnext = ''index.mjs'',
       main_entry = ''index.js'',
       repository = \<lparr> repo_type = ''git'',
                      url = ''https://github.com/license-project/'' @ String (name a) \<rparr> \<rparr>"

text \<open>
  \<open>JSON.stringify(package, null, 4)\<close> for an object of this shape: the keys in insertion
  order, one per line, nested values indented by four more spaces.
\<close>

definition indent :: "nat \<Rightarrow> string" where
  "indent n = replicate n (CHR '' '')"

definition member_line :: "nat \<Rightarrow> string \<Rightarrow> string \<Rightarrow> string" where
  "member_line n k v = indent n @ JSON_stringify k @ '': '' @ v"

definition stringify_array :: "nat \<Rightarrow> string list \<Rightarrow> string" where
  "stringify_array n xs =
     (if xs = [] then ''[]''
      else ''['' @ nl
           @ intercalate ('','' @ nl) (map (\<lambda>x. indent (n + 4) @ JSON_stringify x) xs)
           @ nl @ indent n @ '']'')"

definition stringify_object :: "nat \<Rightarrow> (string \<times> string) list \<Rightarrow> string" where
  "stringify_object n members =
     (if members = [] then ''{}''
      else ''{'' @ nl
           @ intercalate ('','' @ nl) (map (\<lambda>(k, v). member_line (n + 4) k v) members)
           @ nl @ indent n @ ''}'')"

definition stringify_package :: "package \<Rightarrow> string" where
  "stringify_package p =
     stringify_object 0
       [(''name'', JSON_stringify (pkg_name p)),
        (''version'', JSON_stringify (pkg_version p)),
        (''description'', JSON_stringify (description p)),
        (''keywords'', stringify_array 4 (pkg_keywords p)),
        (''license'', JSON_stringify (pkg_license p)),
        (''author'', stringify_object 4
           [(''name'', JSON_stringify (person_name (author p))),
            (''email'', JSON_stringify (email (author p)))]),
        (''esnext'', JSON_stringify (esnext p)),
        (''main'', JSON_stringify (main_entry p)),
        (''repository'', stringify_object 4
           [(''type'', JSON_stringify (repo_type (repository p))),
            (''url'', JSON_stringify (url (repository p)))])]"

subsection \<open>The source-form module (lines 125-141)\<close>

text \<open>
  The template literal of line 125, with its three substitutions: the name in the
  comment, the JSON form of the name, the JSON form of \<open>licenseText\<close>.
\<close>

definition index_template :: "string option \<Rightarrow> string \<Rightarrow> string" where
  "index_template nm licenseText =
     nl @ nl
     @ ''    /*'' @ nl
     @ ''     * The '' @ String nm @ '' package from The License Project'' @ nl
     @ ''     *'' @ nl
     @ ''     * To the extent possible under law, the person who associated CC0 with'' @ nl
     @ ''     * this package from The License Project has waived all copyright and'' @ nl
     @ ''     * related or neighboring rights to this package from The License Project.'' @ nl
     @ ''     * '' @ nl
     @ ''     * You should have received a copy of the CC0 legalcode along with this'' @ nl
     @ ''     * work. If not, see <http://creativecommons.org/publicdomain/zero/1.0/>.'' @ nl
     @ ''     */'' @ nl
     @ nl
     @ ''    export const name = '' @ String (JSON_stringify_value nm) @ '';'' @ nl
     @ ''    export const text = '' @ JSON_stringify licenseText @ '';'' @ nl
     @ nl
     @ ''    ''"

subsection \<open>The world the script acts on\<close>

text \<open>
  The file system is a map from absolute, normalised paths to nodes, the root \<open>/\<close>
  among them (symbolic links are not modelled). A repository is what the script can observe of a \<open>.git\<close> directory: the
  staged paths, the history of \<open>HEAD\<close> and the remotes; it is kept apart from the files,
  under the path of its work tree. The error stream and the number of interviews held
  are part of the world, so that a run that reports or asks something differs from one
  that does not.
\<close>

datatype error =
    ENOENT string
  | EEXIST string
  | EISDIR string
  | ENOTDIR string
  | ERR_INVALID_ARG_TYPE string
  | ConfigNotFound string
  | TransformError string
  | GitError string

datatype log = Message string | Thrown error

datatype node = Dir | File string

record signature =
  sig_name :: string
  sig_email :: string

record commit =
  commit_author :: signature
  committer :: signature
  message :: string
  tree :: "string list"
  parents :: "nat list"

record repo =
  is_bare :: bool
  staged :: "string list"
  commits :: "commit list"
  remotes :: "(string \<times> string) list"

record world =
  fs :: "string \<rightharpoonup> node"
  repos :: "string \<rightharpoonup> repo"
  console_error :: "log list"
  interviews :: nat

text \<open>
  What the run is given and does not change: the \<open>text\<close> export of the package
  \<open>@license-project/CC0-1.0\<close> when it is installed, the directory of the script
  (\<open>__dirname\<close>), the caller's git configuration, the compiler
  (\<open>babel.transformAsync\<close> with the options of lines 144-148), the working directory,
  and whether \<open>fs.writeFile\<close> coerces data that is neither a string nor a buffer to a
  string (Node before 14) or rejects it.
\<close>

record babel_result =
  code :: string

record env =
  cc0_package :: "string option"
  dirname :: string
  git_config :: "string \<rightharpoonup> string"
  transform :: "string \<Rightarrow> error + babel_result"
  cwd :: string
  coerces_data :: bool

subsection \<open>Asynchronous steps\<close>

text \<open>
  A step takes the world and gives a value or a thrown error, and the world after it.
  \<open>await\<close> runs a step and continues with its value; an error ends the chain.
\<close>

type_synonym 'a io = "world \<Rightarrow> (error + 'a) \<times> world"

definition resolve :: "'a \<Rightarrow> 'a io" where
  "resolve x w = (Inr x, w)"

definition reject :: "error \<Rightarrow> 'a io" where
  "reject err w = (Inl err, w)"

definition await :: "'a io \<Rightarrow> ('a \<Rightarrow> 'b io) \<Rightarrow> 'b io" where
  "await m k w = (case m w of (Inl err, w') \<Rightarrow> (Inl err, w') | (Inr x, w') \<Rightarrow> k x w')"

text \<open>
  A promise that nothing awaits: its value is dropped. Its rejection has no handler, so
  the \<open>unhandledRejection\<close> handler of lines 4-7 ends the process; the model lets that
  happen at the place where the promise is made.
\<close>

definition unawaited :: "'a io \<Rightarrow> unit io" where
  "unawaited m w = (case m w of (Inl err, w') \<Rightarrow> (Inl err, w') | (Inr x, w') \<Rightarrow> (Inr (), w'))"

definition console_error_message :: "string \<Rightarrow> unit io" where
  "console_error_message s w = (Inr (), w\<lparr>console_error := console_error w @ [Message s]\<rparr>)"

subsection \<open>The file system (\<open>fs\<close>)\<close>

text \<open>
  A path names the place that \<open>path.resolve\<close> computes from it, provided the system can
  walk there: every directory passed through on the way, starting from the root or from
  the working directory, has to be there and be a directory, \<open>..\<close> steps back, \<open>.\<close> and
  an empty segment stay, and the empty path names nothing. A walk that fails gives
  \<open>ENOENT\<close> or \<open>ENOTDIR\<close> on the path as the script wrote it.
\<close>

definition path_resolve :: "string \<Rightarrow> string \<Rightarrow> string" where
  "path_resolve dir p =
     ''/'' @ normalizeString (if p \<noteq> [] \<and> hd p = CHR ''/'' then p else dir @ ''/'' @ p) False"

definition dir_key :: "string list \<Rightarrow> string" where
  "dir_key st = ''/'' @ intercalate ''/'' st"

fun walk :: "(string \<rightharpoonup> node) \<Rightarrow> string \<Rightarrow> string list \<Rightarrow> string list \<Rightarrow> error option" where
  "walk f p st [] = None"
| "walk f p st (s # ss) =
     (case f (dir_key st) of
        None \<Rightarrow> Some (ENOENT p)
      | Some (File c) \<Rightarrow> Some (ENOTDIR p)
      | Some Dir \<Rightarrow>
          if s = [] \<or> s = ''.'' then walk f p st ss
          else if s = ''..'' then walk f p (butlast st) ss
          else walk f p (st @ [s]) ss)"

definition path_check :: "(string \<rightharpoonup> node) \<Rightarrow> string \<Rightarrow> string \<Rightarrow> string \<Rightarrow> error option" where
  "path_check f dir p q =
     (if q = [] then Some (ENOENT p)
      else if hd q = CHR ''/'' then walk f p [] (segments q)
      else walk f p (normalizeSegments False [] (segments dir)) (segments q))"

text \<open>\<open>fs.readFileSync\<close> and the promise form of \<open>fs.readFile\<close>, decoded to a string.\<close>

definition readFileSync :: "string \<Rightarrow> string \<Rightarrow> world \<Rightarrow> error + string" where
  "readFileSync dir p w =
     (case path_check (fs w) dir p p of
        Some err \<Rightarrow> Inl err
      | None \<Rightarrow>
          (case fs w (path_resolve dir p) of
             None \<Rightarrow> Inl (ENOENT p)
           | Some Dir \<Rightarrow> Inl (EISDIR p)
           | Some (File c) \<Rightarrow> Inr c))"

definition readFileAsync :: "string \<Rightarrow> string \<Rightarrow> string io" where
  "readFileAsync dir p w = (readFileSync dir p w, w)"

text \<open>
  \<open>mkdir\<close> makes one directory: the path up to its last name is walked, slashes after
  the last name do not count, and the name must not be taken.
\<close>

definition strip_trailing_slashes :: "string \<Rightarrow> string" where
  "strip_trailing_slashes p =
     (let q = rev (dropWhile (\<lambda>c. c = CHR ''/'') (rev p)) in if q = [] then take 1 p else q)"

definition mkdirAsync :: "string \<Rightarrow> string \<Rightarrow> unit io" where
  "mkdirAsync dir p w =
     (let k = path_resolve dir p in
      case path_check (fs w) dir p (strip_trailing_slashes p) of
        Some err \<Rightarrow> (Inl err, w)
      | None \<Rightarrow>
          if fs w k \<noteq> None then (Inl (EEXIST p), w)
          else (Inr (), w\<lparr>fs := (fs w)(k \<mapsto> Dir)\<rparr>))"

text \<open>
  The data of \<open>writeFile\<close> is a string, or here the result object of the compiler, which
  has no \<open>toString\<close> of its own. The data is looked at before the file system is.
\<close>

datatype data = Text string | BabelFileResult babel_result

definition data_string :: "bool \<Rightarrow> data \<Rightarrow> error + string" where
  "data_string coerce d =
     (case d of
        Text s \<Rightarrow> Inr s
      | BabelFileResult r \<Rightarrow> if coerce then Inr Object_toString else Inl (ERR_INVALID_ARG_TYPE ''data''))"

definition writeFileAsync :: "bool \<Rightarrow> string \<Rightarrow> string \<Rightarrow> data \<Rightarrow> unit io" where
  "writeFileAsync coerce dir p d w =
     (let k = path_resolve dir p in
      case data_string coerce d of
        Inl err \<Rightarrow> (Inl err, w)
      | Inr s \<Rightarrow>
          (case path_check (fs w) dir p p of
             Some err \<Rightarrow> (Inl err, w)
           | None \<Rightarrow>
               (case fs w k of
                  Some Dir \<Rightarrow> (Inl (EISDIR p), w)
                | _ \<Rightarrow> (Inr (), w\<lparr>fs := (fs w)(k \<mapsto> File s)\<rparr>))))"

text \<open>
  Lines 20-28, run once before \<open>main\<close>: \<open>cc0.text\<close> is the \<open>text\<close> of the installed
  package, or else what the file \<open>cc0.txt\<close> beside the script holds at that moment. When
  neither is there the exception of \<open>readFileSync\<close> ends the process.
\<close>

definition cc0_text :: "env \<Rightarrow> world \<Rightarrow> error + string" where
  "cc0_text e w =
     (case cc0_package e of
        Some t \<Rightarrow> Inr t
      | None \<Rightarrow> readFileSync (cwd e) (dirname e @ ''/cc0.txt'') w)"

subsection \<open>The interview and the compiler\<close>

text \<open>
  \<open>inquirer.prompt\<close> is outside the script: the operator's answers are what it resolves
  to, and the interview is counted.
\<close>

definition prompt :: "answers \<Rightarrow> answers io" where
  "prompt operator w = (Inr operator, w\<lparr>interviews := Suc (interviews w)\<rparr>)"

definition transformAsync :: "env \<Rightarrow> string \<Rightarrow> babel_result io" where
  "transformAsync e src w = (case transform e src of Inl err \<Rightarrow> (Inl err, w) | Inr r \<Rightarrow> (Inr r, w))"

subsection \<open>Version control (\<open>nodegit\<close>)\<close>

definition Config_getString :: "env \<Rightarrow> string \<Rightarrow> string io" where
  "Config_getString e key w =
     (case git_config e key of None \<Rightarrow> (Inl (ConfigNotFound key), w) | Some v \<Rightarrow> (Inr v, w))"

definition empty_repo :: repo where
  "empty_repo = \<lparr> is_bare = False, staged = [], commits = [], remotes = [] \<rparr>"

text \<open>
  The directories from the root down to a path, for \<open>Repository.init\<close>, which creates
  the ones that are missing.
\<close>

fun path_prefixes :: "string list \<Rightarrow> string list \<Rightarrow> string list" where
  "path_prefixes done [] = []"
| "path_prefixes done (s # ss) =
     (''/'' @ intercalate ''/'' (done @ [s])) # path_prefixes (done @ [s]) ss"

fun make_dirs :: "string list \<Rightarrow> (string \<rightharpoonup> node) \<Rightarrow> error + (string \<rightharpoonup> node)" where
  "make_dirs [] f = Inr f"
| "make_dirs (d # ds) f =
     (case f d of
        None \<Rightarrow> make_dirs ds (f(d \<mapsto> Dir))
      | Some Dir \<Rightarrow> make_dirs ds f
      | Some (File c) \<Rightarrow> Inl (ENOTDIR d))"

text \<open>\<open>Git.Repository.init(path, 0)\<close>: a repository that is there is opened as it is.\<close>

definition Repository_init :: "string \<Rightarrow> unit io" where
  "Repository_init path w =
     (case make_dirs (path_prefixes [] (normalizeSegments False [] (segments path))) (fs w) of
        Inl err \<Rightarrow> (Inl err, w)
      | Inr f \<Rightarrow>
          (case repos w path of
             Some r \<Rightarrow> (Inr (), w\<lparr>fs := f\<rparr>)
           | None \<Rightarrow> (Inr (), w\<lparr>fs := f, repos := (repos w)(path \<mapsto> empty_repo)\<rparr>)))"

definition refreshIndex :: "string \<Rightarrow> string list io" where
  "refreshIndex path w =
     (case repos w path of
        None \<Rightarrow> (Inl (GitError ''repository not found''), w)
      | Some r \<Rightarrow> (Inr (staged r), w))"

text \<open>\<open>index.addByPath\<close> stages a file of the work tree; the file has to be there.\<close>

definition addByPath :: "string \<Rightarrow> string list \<Rightarrow> string \<Rightarrow> string list io" where
  "addByPath path idx p w =
     (case readFileSync path p w of
        Inr c \<Rightarrow> (Inr (if p \<in> set idx then idx else idx @ [p]), w)
      | Inl err \<Rightarrow> (Inl (GitError ''could not add file to index''), w))"

definition index_write :: "string \<Rightarrow> string list \<Rightarrow> unit io" where
  "index_write path idx w =
     (case repos w path of
        None \<Rightarrow> (Inl (GitError ''repository not found''), w)
      | Some r \<Rightarrow> (Inr (), w\<lparr>repos := (repos w)(path \<mapsto> r\<lparr>staged := idx\<rparr>)\<rparr>))"

definition writeTree :: "string list \<Rightarrow> string list io" where
  "writeTree idx w = (Inr idx, w)"

definition Signature_now :: "string \<Rightarrow> string \<Rightarrow> signature" where
  "Signature_now n m = \<lparr> sig_name = n, sig_email = m \<rparr>"

text \<open>
  \<open>createCommit('HEAD', author, committer, message, tree, [])\<close>: a commit without
  parents can only become the tip of a branch that has no commit yet.
\<close>

definition createCommit ::
  "string \<Rightarrow> signature \<Rightarrow> signature \<Rightarrow> string \<Rightarrow> string list \<Rightarrow> nat list \<Rightarrow> unit io" where
  "createCommit path a c msg t ps w =
     (case repos w path of
        None \<Rightarrow> (Inl (GitError ''repository not found''), w)
      | Some r \<Rightarrow>
          if commits r \<noteq> [] then (Inl (GitError ''current tip is not the first parent''), w)
          else (Inr (), w\<lparr>repos := (repos w)(path \<mapsto>
                  r\<lparr>commits := [\<lparr> commit_author = a, committer = c, message = msg,
                                  tree = t, parents = ps \<rparr>]\<rparr>)\<rparr>))"

definition Remote_create :: "string \<Rightarrow> string \<Rightarrow> string \<Rightarrow> unit io" where
  "Remote_create path rname rurl w =
     (case repos w path of
        None \<Rightarrow> (Inl (GitError ''repository not found''), w)
      | Some r \<Rightarrow>
          if rname \<in> fst ` set (remotes r) then (Inl (GitError ''remote already exists''), w)
          else (Inr (), w\<lparr>repos := (repos w)(path \<mapsto> r\<lparr>remotes := remotes r @ [(rname, rurl)]\<rparr>)\<rparr>))"

subsection \<open>The script\<close>

text \<open>\<open>process.argv\<close>: the interpreter, the script, then the arguments of the command line.\<close>

definition process_argv :: "string list \<Rightarrow> string list" where
  "process_argv args = ''node'' # ''index.js'' # args"

text \<open>
  Lines 151-155, after \<open>answers.name\<close> is known to be the string \<open>nm\<close>; \<open>cc0\<close> is the
  value of \<open>cc0.text\<close>.
\<close>

definition write_artifacts ::
  "string \<Rightarrow> env \<Rightarrow> string \<Rightarrow> package \<Rightarrow> string \<Rightarrow> babel_result \<Rightarrow> unit io" where
  "write_artifacts cc0 e nm pkg index es5Index =
     await (mkdirAsync (cwd e) nm) (\<lambda>_.
     await (writeFileAsync (coerces_data e) (cwd e) (join nm ''package.json'')
              (Text (stringify_package pkg))) (\<lambda>_.
     await (writeFileAsync (coerces_data e) (cwd e) (join nm ''index.mjs'') (Text index)) (\<lambda>_.
     await (writeFileAsync (coerces_data e) (cwd e) (join nm ''index.js'')
              (BabelFileResult es5Index)) (\<lambda>_.
     writeFileAsync (coerces_data e) (cwd e) (join nm ''LICENSE'') (Text cc0)))))"

text \<open>Lines 157-169.\<close>

definition commit_repository :: "env \<Rightarrow> answers \<Rightarrow> string \<Rightarrow> unit io" where
  "commit_repository e a nm =
     (let gitPath = join (cwd e) nm in
      await (Repository_init gitPath) (\<lambda>_.
      await (refreshIndex gitPath) (\<lambda>gitIndex0.
      await (addByPath gitPath gitIndex0 ''package.json'') (\<lambda>gitIndex1.
      await (addByPath gitPath gitIndex1 ''index.mjs'') (\<lambda>gitIndex2.
      await (addByPath gitPath gitIndex2 ''index.js'') (\<lambda>gitIndex3.
      await (addByPath gitPath gitIndex3 ''LICENSE'') (\<lambda>gitIndex.
      await (index_write gitPath gitIndex) (\<lambda>_.
      await (writeTree gitIndex) (\<lambda>oid.
      let author = Signature_now (authorName a) (authorEmail a) in
      await (createCommit gitPath author author
               ''Initial commit (by @license-project/generator)'' oid []) (\<lambda>_.
      Remote_create gitPath ''origin''
        (''git@github.com:license-project/'' @ nm @ ''.git'')))))))))))"

text \<open>
  Lines 30-169, with \<open>cc0\<close> the value that the bootstrap gave \<open>cc0.text\<close>. The value is
  what \<open>main\<close> returns: \<open>1\<close> after the usage error, nothing (\<open>undefined\<close>) at the end.
  Line 36 calls \<open>toString\<close> on the promise of the read, not on
  what was read, and awaits that string; the read itself is awaited by nothing.
\<close>

definition main :: "string \<Rightarrow> env \<Rightarrow> string list \<Rightarrow> answers \<Rightarrow> nat option io" where
  "main cc0 e args operator =
     (if length (process_argv args) \<noteq> 3 then
        await (console_error_message ''You must specify a license file name.'') (\<lambda>_.
        resolve (Some 1))
      else
        await (unawaited (readFileAsync (cwd e) (process_argv args ! 2))) (\<lambda>_.
        let licenseText = Promise_toString in
        await (Config_getString e ''user.name'') (\<lambda>gitName.
        await (Config_getString e ''user.email'') (\<lambda>gitEmail.
        await (prompt operator) (\<lambda>answers0.
        let answers = resolve_name answers0;
            pkg = make_package answers;
            index = index_template (name answers) licenseText
        in
        await (transformAsync e index) (\<lambda>es5Index.
        (case name answers of
           None \<Rightarrow> reject (ERR_INVALID_ARG_TYPE ''path'')
         | Some nm \<Rightarrow>
             await (write_artifacts cc0 e nm pkg index es5Index) (\<lambda>_.
             await (commit_repository e answers nm) (\<lambda>_.
             resolve None)))))))))"

text \<open>
  The whole script. An exception of the bootstrap is printed and ends the process with
  \<open>1\<close> before \<open>main\<close> is called. Line 170 and lines 4-7: the process ends with the
  value of \<open>main\<close> or \<open>0\<close>; an error that escapes \<open>main\<close> is printed and the process
  ends with \<open>1\<close>.
\<close>

definition run :: "env \<Rightarrow> string list \<Rightarrow> answers \<Rightarrow> world \<Rightarrow> nat \<times> world" where
  "run e args operator w =
     (case cc0_text e w of
        Inl err \<Rightarrow> (1, w\<lparr>console_error := console_error w @ [Thrown err]\<rparr>)
      | Inr cc0 \<Rightarrow>
          (case main cc0 e args operator w of
             (Inr result, w') \<Rightarrow> ((case result of None \<Rightarrow> 0 | Some c \<Rightarrow> c), w')
           | (Inl err, w') \<Rightarrow> (1, w'\<lparr>console_error := console_error w' @ [Thrown err]\<rparr>)))"

subsection \<open>What a consumer of the package finds\<close>

text \<open>
  The value of the binding \<open>b\<close> exported by the module stored at \<open>p\<close>, when the file is
  there and the binding is a string literal.
\<close>

definition exported_binding :: "string \<Rightarrow> string \<Rightarrow> string \<Rightarrow> world \<Rightarrow> string option" where
  "exported_binding dir p b w =
     (case fst (readFileAsync dir p w) of
        Inl err \<Rightarrow> None
      | Inr module \<Rightarrow> binding_value b module)"

subsection \<open>Relations between worlds\<close>

text \<open>
  A file system grows into another when every directory of the first is a directory of
  the second and every file of the first is a file of the second, with whatever
  contents.
\<close>

definition grows :: "(string \<rightharpoonup> node) \<Rightarrow> (string \<rightharpoonup> node) \<Rightarrow> bool" where
  "grows f g \<longleftrightarrow>
     (\<forall>k. (f k = Some Dir \<longrightarrow> g k = Some Dir)
        \<and> (\<forall>c. f k = Some (File c) \<longrightarrow> (\<exists>c'. g k = Some (File c'))))"

text \<open>
  Two worlds are alike when they have the same directories and the same files, whatever
  the files hold, and agree on everything else. A step is insensitive to file contents
  when, on alike worlds, it gives the same value or error and leaves alike worlds.
\<close>

definition erase :: "node \<Rightarrow> node" where
  "erase n = (case n of Dir \<Rightarrow> Dir | File c \<Rightarrow> File [])"

definition alike_fs :: "(string \<rightharpoonup> node) \<Rightarrow> (string \<rightharpoonup> node) \<Rightarrow> bool" where
  "alike_fs f g \<longleftrightarrow> (\<forall>k. map_option erase (f k) = map_option erase (g k))"



subsection \<open>A concrete run\<close>

text \<open>
  The operator of the examples works in \<open>/home/op\<close>, has the generator in
  \<open>/opt/generator\<close> with its \<open>cc0.txt\<close> and no \<open>@license-project/CC0-1.0\<close> installed, and
  runs a Node that coerces the data of \<open>writeFile\<close>; the compiler of the examples marks
  its input. The license file holds the first lines of the MIT license, and the answers
  are those of the first end-to-end scenario.
\<close>

definition example_license_text :: string where
  "example_license_text = ''MIT License'' @ nl @ nl @ ''Permission is hereby granted''"

definition example_waiver_text :: string where
  "example_waiver_text = ''Creative Commons Legal Code'' @ nl @ nl @ ''CC0 1.0 Universal''"

definition example_env :: env where
  "example_env =
     \<lparr> cc0_package = None,
       dirname = ''/opt/generator'',
       git_config = [''user.name'' \<mapsto> ''A'', ''user.email'' \<mapsto> ''a@x.com''],
       transform = (\<lambda>src. Inr \<lparr> code = ''/* compiled */'' @ src \<rparr>),
       cwd = ''/home/op'',
       coerces_data = True \<rparr>"

definition example_world :: world where
  "example_world =
     \<lparr> fs = [''/'' \<mapsto> Dir, ''/home'' \<mapsto> Dir, ''/home/op'' \<mapsto> Dir,
             ''/home/op/MIT.txt'' \<mapsto> File example_license_text,
             ''/opt'' \<mapsto> Dir, ''/opt/generator'' \<mapsto> Dir,
             ''/opt/generator/cc0.txt'' \<mapsto> File example_waiver_text],
       repos = Map.empty,
       console_error = [],
       interviews = 0 \<rparr>"

definition example_answers :: answers where
  "example_answers =
     \<lparr> spdx = True, name = Some ''MIT'', shortName = None, longName = ''The MIT License'',
       version = None, authorName = ''A'', authorEmail = ''a@x.com'', license = True \<rparr>"

text \<open>
  The answers of the second scenario, a license without a version, and the answers of
  the run that packages the waiver itself from the generator's own \<open>cc0.txt\<close>.
\<close>

definition example_custom :: answers where
  "example_custom =
     \<lparr> spdx = False, name = None, shortName = Some ''BlueOak'',
       longName = ''Blue Oak Model License'', version = Some ''1.0.0'',
       authorName = ''B'', authorEmail = ''b@x.com'', license = True \<rparr>"

definition example_unversioned :: answers where
  "example_unversioned =
     \<lparr> spdx = False, name = None, shortName = Some ''ISC'',
       longName = ''ISC License'', version = Some [],
       authorName = ''B'', authorEmail = ''b@x.com'', license = True \<rparr>"


section \<open>Facts about the steps\<close>

subsection \<open>What a step that succeeded has done\<close>

lemma await_Inr:
  assumes "await m k w = (Inr y, w2)"
  obtains x w1 where "m w = (Inr x, w1)" and "k x w1 = (Inr y, w2)"
  using assms by (auto simp: await_def split: prod.splits sum.splits)

lemma mkdirAsync_Inr:
  assumes "mkdirAsync dir p w = (Inr u, w')"
  shows "path_check (fs w) dir p (strip_trailing_slashes p) = None
           \<and> fs w (path_resolve dir p) = None
           \<and> w' = w\<lparr>fs := (fs w)(path_resolve dir p \<mapsto> Dir)\<rparr>"
  using assms
  by (auto simp: mkdirAsync_def Let_def split: if_splits option.splits)

lemma writeFileAsync_Inr:
  assumes "writeFileAsync coerce dir p d w = (Inr u, w')"
  shows "\<exists>s. data_string coerce d = Inr s \<and> path_check (fs w) dir p p = None
           \<and> fs w (path_resolve dir p) \<noteq> Some Dir
           \<and> w' = w\<lparr>fs := (fs w)(path_resolve dir p \<mapsto> File s)\<rparr>"
  using assms
  by (auto simp: writeFileAsync_def Let_def split: sum.splits option.splits node.splits)

lemma readFileSync_Inr:
  "readFileSync dir p w = Inr c \<longleftrightarrow>
     path_check (fs w) dir p p = None \<and> fs w (path_resolve dir p) = Some (File c)"
  by (auto simp: readFileSync_def split: option.splits node.splits)

subsection \<open>File systems that grow\<close>

lemma grows_refl: "grows f f"
  by (simp add: grows_def)

lemma grows_trans: "grows f g \<Longrightarrow> grows g h \<Longrightarrow> grows f h"
  unfolding grows_def by metis

lemma grows_new: "f k = None \<Longrightarrow> grows f (f(k \<mapsto> n))"
  by (auto simp: grows_def)

lemma grows_file: "f k \<noteq> Some Dir \<Longrightarrow> grows f (f(k \<mapsto> File s))"
  by (auto simp: grows_def)

lemma grows_Dir: "grows f g \<Longrightarrow> f k = Some Dir \<Longrightarrow> g k = Some Dir"
  by (simp add: grows_def)

lemma grows_File: "grows f g \<Longrightarrow> f k = Some (File c) \<Longrightarrow> \<exists>c'. g k = Some (File c')"
  by (simp add: grows_def)

lemma walk_grows:
  assumes "grows f g"
  shows "walk f p st ss = None \<Longrightarrow> walk g p st ss = None"
proof (induction ss arbitrary: st)
  case Nil
  show ?case by simp
next
  case (Cons s ss)
  from Cons.prems have d: "f (dir_key st) = Some Dir"
    by (auto split: option.splits node.splits)
  with assms have d': "g (dir_key st) = Some Dir"
    by (rule grows_Dir)
  from Cons.prems d have
    "(if s = [] \<or> s = ''.'' then walk f p st ss
      else if s = ''..'' then walk f p (butlast st) ss
      else walk f p (st @ [s]) ss) = None"
    by simp
  then have
    "(if s = [] \<or> s = ''.'' then walk g p st ss
      else if s = ''..'' then walk g p (butlast st) ss
      else walk g p (st @ [s]) ss) = None"
    by (auto split: if_splits intro: Cons.IH)
  with d' show ?case by simp
qed

lemma path_check_grows:
  assumes "grows f g" and "path_check f dir p q = None"
  shows "path_check g dir p q = None"
  using assms(2) walk_grows [OF assms(1)]
  by (auto simp: path_check_def split: if_splits)

lemma readFileSync_grows:
  assumes "grows (fs w) (fs w')" and "readFileSync dir p w = Inr c"
  shows "\<exists>c'. readFileSync dir p w' = Inr c'"
proof -
  from assms(2) have "path_check (fs w) dir p p = None" "fs w (path_resolve dir p) = Some (File c)"
    by (simp_all add: readFileSync_Inr)
  with assms(1) have "path_check (fs w') dir p p = None" "\<exists>c'. fs w' (path_resolve dir p) = Some (File c')"
    by (auto intro: path_check_grows grows_File)
  then show ?thesis
    by (auto simp: readFileSync_Inr)
qed

lemma data_string_Text: "data_string coerce (Text s) = Inr t \<Longrightarrow> t = s"
  by (simp add: data_string_def)

lemma data_string_Babel: "data_string coerce (BabelFileResult r) = Inr t \<Longrightarrow> coerce \<and> t = Object_toString"
  by (simp add: data_string_def split: if_splits)

lemma write_artifacts_Inr:
  assumes "write_artifacts cc0 e nm pkg idx es w = (Inr u, w')"
  shows "path_check (fs w) (cwd e) nm (strip_trailing_slashes nm) = None"
    and "fs w (path_resolve (cwd e) nm) = None"
    and "fs w' (path_resolve (cwd e) nm) = Some Dir"
    and "readFileSync (cwd e) (join nm ''LICENSE'') w' = Inr cc0"
    and "coerces_data e"
    and "grows (fs w) (fs w')"
    and "repos w' = repos w"
    and "interviews w' = interviews w"
    and "console_error w' = console_error w"
proof -
  from assms obtain w1 w2 w3 w4 u1 u2 u3 u4 where
    s1: "mkdirAsync (cwd e) nm w = (Inr u1, w1)" and
    s2: "writeFileAsync (coerces_data e) (cwd e) (join nm ''package.json'') (Text (stringify_package pkg)) w1 = (Inr u2, w2)" and
    s3: "writeFileAsync (coerces_data e) (cwd e) (join nm ''index.mjs'') (Text idx) w2 = (Inr u3, w3)" and
    s4: "writeFileAsync (coerces_data e) (cwd e) (join nm ''index.js'') (BabelFileResult es) w3 = (Inr u4, w4)" and
    s5: "writeFileAsync (coerces_data e) (cwd e) (join nm ''LICENSE'') (Text cc0) w4 = (Inr u, w')"
    unfolding write_artifacts_def by (elim await_Inr) blast
  note f1 = mkdirAsync_Inr [OF s1]
  note f2 = writeFileAsync_Inr [OF s2]
  note f3 = writeFileAsync_Inr [OF s3]
  note f4 = writeFileAsync_Inr [OF s4]
  note f5 = writeFileAsync_Inr [OF s5]
  show "path_check (fs w) (cwd e) nm (strip_trailing_slashes nm) = None" using f1 by simp
  show "fs w (path_resolve (cwd e) nm) = None" using f1 by simp
  show "coerces_data e" using f4 by (auto dest: data_string_Babel)
  show "repos w' = repos w" using f1 f2 f3 f4 f5 by auto
  show "interviews w' = interviews w" using f1 f2 f3 f4 f5 by auto
  show "console_error w' = console_error w" using f1 f2 f3 f4 f5 by auto
  have g1: "grows (fs w) (fs w1)" using f1 by (auto intro: grows_new)
  have g2: "grows (fs w1) (fs w2)" using f2 by (auto intro: grows_file)
  have g3: "grows (fs w2) (fs w3)" using f3 by (auto intro: grows_file)
  have g4: "grows (fs w3) (fs w4)" using f4 by (auto intro: grows_file)
  have g5: "grows (fs w4) (fs w')" using f5 by (auto intro: grows_file)
  have g15: "grows (fs w1) (fs w')"
    using g2 g3 g4 g5 by (blast intro: grows_trans)
  show "grows (fs w) (fs w')"
    using g1 g15 by (rule grows_trans)
  have "fs w1 (path_resolve (cwd e) nm) = Some Dir" using f1 by simp
  with g15 show "fs w' (path_resolve (cwd e) nm) = Some Dir" by (rule grows_Dir)
  have c4: "path_check (fs w4) (cwd e) (join nm ''LICENSE'') (join nm ''LICENSE'') = None"
    using f5 by auto
  have "path_check (fs w') (cwd e) (join nm ''LICENSE'') (join nm ''LICENSE'') = None"
    using g5 c4 by (rule path_check_grows)
  moreover have "fs w' (path_resolve (cwd e) (join nm ''LICENSE'')) = Some (File cc0)"
    using f5 by (auto dest: data_string_Text)
  ultimately show "readFileSync (cwd e) (join nm ''LICENSE'') w' = Inr cc0"
    by (simp add: readFileSync_Inr)
qed

lemma make_dirs_keeps:
  "make_dirs ds f = Inr g \<Longrightarrow> f k = Some v \<Longrightarrow> g k = Some v"
proof (induction ds arbitrary: f)
  case Nil
  then show ?case by simp
next
  case (Cons d ds)
  show ?case
  proof (cases "f d")
    case None
    with Cons.prems have m: "make_dirs ds (f(d \<mapsto> Dir)) = Inr g" and "k \<noteq> d"
      by auto
    then have "(f(d \<mapsto> Dir)) k = Some v"
      using Cons.prems(2) by simp
    with m show ?thesis by (rule Cons.IH)
  next
    case (Some n)
    with Cons.prems show ?thesis
      by (cases n) (auto intro: Cons.IH)
  qed
qed

lemma Repository_init_Inr:
  assumes "Repository_init path w = (Inr u, w')"
  shows "(\<forall>k v. fs w k = Some v \<longrightarrow> fs w' k = Some v)
         \<and> interviews w' = interviews w \<and> console_error w' = console_error w
         \<and> repos w' = (case repos w path of None \<Rightarrow> (repos w)(path \<mapsto> empty_repo) | Some r \<Rightarrow> repos w)"
  using assms
  by (auto simp: Repository_init_def split: sum.splits option.splits dest: make_dirs_keeps)

lemma refreshIndex_Inr:
  assumes "refreshIndex path w = (Inr idx, w')"
  shows "w' = w \<and> (\<exists>r. repos w path = Some r \<and> idx = staged r)"
  using assms by (auto simp: refreshIndex_def split: option.splits)

lemma addByPath_Inr:
  assumes "addByPath path idx p w = (Inr idx', w')"
  shows "w' = w"
  using assms by (auto simp: addByPath_def split: sum.splits)

lemma index_write_Inr:
  assumes "index_write path idx w = (Inr u, w')"
  shows "\<exists>r. repos w path = Some r \<and> w' = w\<lparr>repos := (repos w)(path \<mapsto> r\<lparr>staged := idx\<rparr>)\<rparr>"
  using assms by (auto simp: index_write_def split: option.splits)

lemma writeTree_Inr:
  assumes "writeTree idx w = (Inr t, w')"
  shows "w' = w \<and> t = idx"
  using assms by (auto simp: writeTree_def)

lemma createCommit_Inr:
  assumes "createCommit path a c msg t ps w = (Inr u, w')"
  shows "\<exists>r. repos w path = Some r \<and> commits r = []
          \<and> w' = w\<lparr>repos := (repos w)(path \<mapsto>
                  r\<lparr>commits := [\<lparr> commit_author = a, committer = c, message = msg,
                                  tree = t, parents = ps \<rparr>]\<rparr>)\<rparr>"
  using assms by (auto simp: createCommit_def split: option.splits if_splits)

lemma Remote_create_Inr:
  assumes "Remote_create path rname rurl w = (Inr u, w')"
  shows "\<exists>r. repos w path = Some r \<and> rname \<notin> fst ` set (remotes r)
          \<and> w' = w\<lparr>repos := (repos w)(path \<mapsto> r\<lparr>remotes := remotes r @ [(rname, rurl)]\<rparr>)\<rparr>"
  using assms by (auto simp: Remote_create_def split: option.splits if_splits)

lemma map_of_snoc:
  "n \<notin> fst ` set xs \<Longrightarrow> map_of (xs @ [(n, v)]) n = Some v"
  by (induction xs) auto

lemma commit_repository_Inr:
  assumes "commit_repository e a nm w = (Inr u, w')"
  shows "\<And>k v. fs w k = Some v \<Longrightarrow> fs w' k = Some v"
    and "interviews w' = interviews w"
    and "console_error w' = console_error w"
    and "\<exists>r. repos w' (join (cwd e) nm) = Some r
           \<and> map_of (remotes r) ''origin'' = Some (''git@github.com:license-project/'' @ nm @ ''.git'')
           \<and> map message (commits r) = [''Initial commit (by @license-project/generator)'']"
proof -
  let ?g = "join (cwd e) nm"
  from assms obtain w1 w2 w3 w4 w5 w6 w7 w8 w9 u1 i0 i1 i2 i3 i4 u7 oid u9 where
    s1: "Repository_init ?g w = (Inr u1, w1)" and
    s2: "refreshIndex ?g w1 = (Inr i0, w2)" and
    s3: "addByPath ?g i0 ''package.json'' w2 = (Inr i1, w3)" and
    s4: "addByPath ?g i1 ''index.mjs'' w3 = (Inr i2, w4)" and
    s5: "addByPath ?g i2 ''index.js'' w4 = (Inr i3, w5)" and
    s6: "addByPath ?g i3 ''LICENSE'' w5 = (Inr i4, w6)" and
    s7: "index_write ?g i4 w6 = (Inr u7, w7)" and
    s8: "writeTree i4 w7 = (Inr oid, w8)" and
    s9: "createCommit ?g (Signature_now (authorName a) (authorEmail a))
           (Signature_now (authorName a) (authorEmail a))
           ''Initial commit (by @license-project/generator)'' oid [] w8 = (Inr u9, w9)" and
    s10: "Remote_create ?g ''origin'' (''git@github.com:license-project/'' @ nm @ ''.git'') w9 = (Inr u, w')"
    unfolding commit_repository_def Let_def by (elim await_Inr) blast
  note f1 = Repository_init_Inr [OF s1]
  note f2 = refreshIndex_Inr [OF s2]
  note f3 = addByPath_Inr [OF s3]
  note f4 = addByPath_Inr [OF s4]
  note f5 = addByPath_Inr [OF s5]
  note f6 = addByPath_Inr [OF s6]
  note f7 = index_write_Inr [OF s7]
  note f8 = writeTree_Inr [OF s8]
  note f9 = createCommit_Inr [OF s9]
  note f10 = Remote_create_Inr [OF s10]
  have same: "w6 = w1" using f2 f3 f4 f5 f6 by simp
  show "fs w' k = Some v" if "fs w k = Some v" for k v
    using that f1 same f7 f8 f9 f10 by auto
  show "interviews w' = interviews w" using f1 same f7 f8 f9 f10 by auto
  show "console_error w' = console_error w" using f1 same f7 f8 f9 f10 by auto
  show "\<exists>r. repos w' ?g = Some r
           \<and> map_of (remotes r) ''origin'' = Some (''git@github.com:license-project/'' @ nm @ ''.git'')
           \<and> map message (commits r) = [''Initial commit (by @license-project/generator)'']"
  proof -
    from f10 obtain r where
      r: "repos w9 ?g = Some r" "''origin'' \<notin> fst ` set (remotes r)" and
      w': "w' = w9\<lparr>repos := (repos w9)(?g \<mapsto>
             r\<lparr>remotes := remotes r @ [(''origin'', ''git@github.com:license-project/'' @ nm @ ''.git'')]\<rparr>)\<rparr>"
      by blast
    from f9 r(1) have c: "map message (commits r) = [''Initial commit (by @license-project/generator)'']"
      by auto
    have "map_of (remotes r @ [(''origin'', ''git@github.com:license-project/'' @ nm @ ''.git'')]) ''origin''
            = Some (''git@github.com:license-project/'' @ nm @ ''.git'')"
      using r(2) by (rule map_of_snoc)
    with w' c show ?thesis by simp
  qed
qed

lemma commit_repository_grows:
  assumes "commit_repository e a nm w = (Inr u, w')"
  shows "grows (fs w) (fs w')"
  using commit_repository_Inr(1) [OF assms] by (auto simp: grows_def)

subsection \<open>The script, unfolded\<close>

lemma length_process_argv: "length (process_argv args) \<noteq> 3 \<longleftrightarrow> length args \<noteq> 1"
  by (simp add: process_argv_def)

lemma process_argv_2: "process_argv [p] ! 2 = p"
  by (simp add: process_argv_def)

lemma main_usage:
  assumes "length args \<noteq> 1"
  shows "main cc0 e args operator w =
           (Inr (Some 1), w\<lparr>console_error := console_error w
              @ [Message ''You must specify a license file name.'']\<rparr>)"
  using assms
  by (simp add: main_def length_process_argv await_def console_error_message_def resolve_def)

lemma main_one_arg:
  "main cc0 e [p] operator w =
     (case readFileSync (cwd e) p w of
        Inl err \<Rightarrow> (Inl err, w)
      | Inr c \<Rightarrow>
          (case git_config e ''user.name'' of
             None \<Rightarrow> (Inl (ConfigNotFound ''user.name''), w)
           | Some gitName \<Rightarrow>
               (case git_config e ''user.email'' of
                  None \<Rightarrow> (Inl (ConfigNotFound ''user.email''), w)
                | Some gitEmail \<Rightarrow>
                    (let w0 = w\<lparr>interviews := Suc (interviews w)\<rparr>;
                         a = resolve_name operator;
                         index = index_template (name a) Promise_toString
                     in case transform e index of
                          Inl err \<Rightarrow> (Inl err, w0)
                        | Inr es \<Rightarrow>
                            (case name a of
                               None \<Rightarrow> (Inl (ERR_INVALID_ARG_TYPE ''path''), w0)
                             | Some nm \<Rightarrow>
                                 (case write_artifacts cc0 e nm (make_package a) index es w0 of
                                    (Inl err, w1) \<Rightarrow> (Inl err, w1)
                                  | (Inr u, w1) \<Rightarrow>
                                      (case commit_repository e a nm w1 of
                                         (Inl err, w2) \<Rightarrow> (Inl err, w2)
                                       | (Inr u, w2) \<Rightarrow> (Inr None, w2))))))))"
  by (simp add: main_def length_process_argv process_argv_2 await_def unawaited_def
        readFileAsync_def Config_getString_def prompt_def transformAsync_def resolve_def
        reject_def Let_def
      split: option.splits sum.splits prod.splits)

lemma run_success:
  assumes "run e args operator w = (0, w')"
  shows "\<exists>p c cc0 nm es w1 u1 u2.
           args = [p]
         \<and> cc0_text e w = Inr cc0
         \<and> readFileSync (cwd e) p w = Inr c
         \<and> git_config e ''user.name'' \<noteq> None
         \<and> git_config e ''user.email'' \<noteq> None
         \<and> name (resolve_name operator) = Some nm
         \<and> transform e (index_template (Some nm) Promise_toString) = Inr es
         \<and> write_artifacts cc0 e nm (make_package (resolve_name operator))
              (index_template (Some nm) Promise_toString) es
              (w\<lparr>interviews := Suc (interviews w)\<rparr>) = (Inr u1, w1)
         \<and> commit_repository e (resolve_name operator) nm w1 = (Inr u2, w')"
proof (cases "cc0_text e w")
  case (Inl err)
  then show ?thesis
    using assms by (simp add: run_def)
next
  case (Inr cc0)
  show ?thesis
  proof (cases "length args = 1")
    case False
    then show ?thesis
      using assms Inr by (simp add: run_def main_usage)
  next
    case True
    then obtain p where p: "args = [p]"
      by (cases args) auto
    from assms show ?thesis
      unfolding p run_def Inr main_one_arg Let_def
      by (auto split: option.splits sum.splits prod.splits)
  qed
qed

subsection \<open>Steps are insensitive to file contents\<close>



lemma alike_fs_refl: "alike_fs f f"
  by (simp add: alike_fs_def)




























subsection \<open>Quoting a string and reading it back\<close>

text \<open>
  \<open>JSON.stringify\<close> loses nothing: the literal it makes of a string reads back as that
  string, with whatever follows the literal left over.
\<close>

lemma hex_digits_read_back: "list_all (\<lambda>k. hex_value (hex_digit k) = Some k) [0..<16]"
  by code_simp

lemma hex_value_hex_digit:
  assumes "n < 16"
  shows "hex_value (hex_digit n) = Some n"
proof -
  from assms have "n \<in> set [0..<16]"
    by simp
  with hex_digits_read_back show ?thesis
    unfolding list_all_iff by (rule bspec)
qed

lemma hex_value_zero: "hex_value (CHR ''0'') = Some 0"
  by (simp add: hex_value_def)

lemma unquote_body_dquote: "unquote_body (dquote # r) = Some ([], r)"
  by (cases r) simp_all

lemma unquote_body_plain:
  assumes "c \<noteq> dquote" and "c \<noteq> backslash" and "\<not> (of_char c :: nat) < 32"
  shows "unquote_body (c # t) =
           (case unquote_body t of None \<Rightarrow> None | Some (s, r) \<Rightarrow> Some (c # s, r))"
  using assms by (cases t) simp_all

lemma unquote_body_unicode:
  assumes "hex_value h3 = Some x" and "hex_value h4 = Some y"
  shows "unquote_body (backslash # CHR ''u'' # CHR ''0'' # CHR ''0'' # h3 # h4 # t) =
           (case unquote_body t of
              None \<Rightarrow> None
            | Some (s, r) \<Rightarrow> Some (char_of (x * 16 + y) # s, r))"
  using assms by (simp add: hex_value_zero dquote_def backslash_def)

lemma unquote_body_quote_char:
  "unquote_body (quote_char c @ t) =
     (case unquote_body t of None \<Rightarrow> None | Some (s, r) \<Rightarrow> Some (c # s, r))"
proof -
  consider "c = dquote" | "c = backslash" | "c = CHR 0x08" | "c = CHR 0x0C" | "c = CHR 0x0A"
    | "c = CHR 0x0D" | "c = CHR 0x09"
    | "c \<noteq> dquote" "c \<noteq> backslash" "c \<noteq> CHR 0x08" "c \<noteq> CHR 0x0C" "c \<noteq> CHR 0x0A"
      "c \<noteq> CHR 0x0D" "c \<noteq> CHR 0x09" "(of_char c :: nat) < 32"
    | "c \<noteq> dquote" "c \<noteq> backslash" "\<not> (of_char c :: nat) < 32"
    by fastforce
  then show ?thesis
  proof cases
    case 1
    then show ?thesis
      by (auto simp: quote_char_def dquote_def backslash_def split: option.splits)
  next
    case 2
    then show ?thesis
      by (auto simp: quote_char_def dquote_def backslash_def split: option.splits)
  next
    case 3
    then show ?thesis
      by (auto simp: quote_char_def dquote_def backslash_def split: option.splits)
  next
    case 4
    then show ?thesis
      by (auto simp: quote_char_def dquote_def backslash_def split: option.splits)
  next
    case 5
    then show ?thesis
      by (auto simp: quote_char_def dquote_def backslash_def split: option.splits)
  next
    case 6
    then show ?thesis
      by (auto simp: quote_char_def dquote_def backslash_def split: option.splits)
  next
    case 7
    then show ?thesis
      by (auto simp: quote_char_def dquote_def backslash_def split: option.splits)
  next
    case 8
    let ?n = "of_char c :: nat"
    have q: "quote_char c = [backslash, CHR ''u'', CHR ''0'', CHR ''0'',
               hex_digit (?n div 16), hex_digit ?n]"
      using 8 by (simp add: quote_char_def)
    have h3: "hex_value (hex_digit (?n div 16)) = Some (?n div 16)"
      using 8(8) by (intro hex_value_hex_digit) simp
    have "hex_digit ?n = hex_digit (?n mod 16)"
      by (simp add: hex_digit_def)
    then have h4: "hex_value (hex_digit ?n) = Some (?n mod 16)"
      by (simp add: hex_value_hex_digit)
    have cc: "char_of (?n div 16 * 16 + ?n mod 16) = c"
      by simp
    have "unquote_body (quote_char c @ t)
            = unquote_body (backslash # CHR ''u'' # CHR ''0'' # CHR ''0''
                # hex_digit (?n div 16) # hex_digit ?n # t)"
      by (simp add: q)
    also have "\<dots> = (case unquote_body t of
                         None \<Rightarrow> None
                       | Some (s, r) \<Rightarrow> Some (char_of (?n div 16 * 16 + ?n mod 16) # s, r))"
      by (rule unquote_body_unicode [OF h3 h4])
    finally show ?thesis
      by (simp only: cc)
  next
    case 9
    from 9(3) have "c \<noteq> CHR 0x08" "c \<noteq> CHR 0x0C" "c \<noteq> CHR 0x0A" "c \<noteq> CHR 0x0D"
      "c \<noteq> CHR 0x09"
      by auto
    with 9 have q: "quote_char c = [c]"
      by (simp add: quote_char_def)
    show ?thesis
      unfolding q using unquote_body_plain [OF 9, of t] by simp
  qed
qed

lemma unquote_body_quoted:
  "unquote_body (concat (map quote_char s) @ dquote # r) = Some (s, r)"
proof (induction s)
  case Nil
  show ?case by (simp add: unquote_body_dquote del: unquote_body.simps)
next
  case (Cons c s)
  have "unquote_body (concat (map quote_char (c # s)) @ dquote # r)
          = unquote_body (quote_char c @ (concat (map quote_char s) @ dquote # r))"
    by simp
  also have "\<dots> = Some (c # s, r)"
    unfolding unquote_body_quote_char Cons.IH by simp
  finally show ?case .
qed

lemma unquote_JSON_stringify: "unquote (JSON_stringify s @ r) = Some (s, r)"
  by (simp add: unquote_def JSON_stringify_def unquote_body_quoted del: unquote_body.simps)

section \<open>The claims of the specification\<close>

subsection \<open>The command line\<close>


lemma example_cc0_text: "cc0_text example_env example_world = Inr example_waiver_text"
  by code_simp


subsection \<open>The package identity\<close>

lemma hyphen_not_spdx: "s @ ''-'' @ v \<noteq> ''spdx''"
proof
  assume eq: "s @ ''-'' @ v = ''spdx''"
  have "CHR ''-'' \<in> set (s @ ''-'' @ v)" by simp
  then have "CHR ''-'' \<in> set ''spdx''" unfolding eq .
  then show False by simp
qed

text \<open>
  Claim C5. For a validated answer record: when the license is SPDX-listed, the derived
  name is the SPDX identifier and the keywords contain \<open>spdx\<close>; when it is not, the
  derived name is the short name, a hyphen and the version, and the keywords do not
  contain \<open>spdx\<close>.
\<close>

theorem identity_resolution:
  assumes "validated spdxLicenseIds a"
  shows "if spdx a
         then \<exists>spdxId. name a = Some spdxId
                \<and> name (resolve_name a) = Some spdxId
                \<and> ''spdx'' \<in> set (pkg_keywords (make_package (resolve_name a)))
         else \<exists>s v. shortName a = Some s \<and> version a = Some v
                \<and> name (resolve_name a) = Some (s @ ''-'' @ v)
                \<and> ''spdx'' \<notin> set (pkg_keywords (make_package (resolve_name a)))"
proof (cases "spdx a")
  case True
  with assms obtain i where "name a = Some i"
    by (auto simp: validated_def split: option.splits)
  with True show ?thesis
    by (simp add: resolve_name_def make_package_def)
next
  case False
  with assms obtain s v where sv: "shortName a = Some s" "version a = Some v"
    by (auto simp: validated_def split: option.splits)
  have ne: "s @ ''-'' @ v \<noteq> ''spdx''"
    by (rule hyphen_not_spdx)
  have kw: "pkg_keywords (make_package (resolve_name a)) = [''license-project'', ''license'', s @ ''-'' @ v]"
    using False sv by (simp add: resolve_name_def make_package_def String_def)
  have nm: "name (resolve_name a) = Some (s @ ''-'' @ v)"
    using False sv by (simp add: resolve_name_def String_def)
  have "''spdx'' \<notin> set [''license-project'', ''license'', s @ ''-'' @ v]"
    using ne by (simp del: append_eq_Cons_conv Cons_eq_append_conv)
  with False sv kw nm show ?thesis
    by (simp only: if_False) blast
qed

theorem identity_resolution_witness:
  "validated [''ISC'', ''MIT''] example_answers
   \<and> validated [''ISC'', ''MIT''] example_custom
   \<and> name (resolve_name example_answers) = Some ''MIT''
   \<and> ''spdx'' \<in> set (pkg_keywords (make_package (resolve_name example_answers)))
   \<and> name (resolve_name example_custom) = Some ''BlueOak-1.0.0''
   \<and> ''spdx'' \<notin> set (pkg_keywords (make_package (resolve_name example_custom)))"
proof -
  have v1: "validated [''ISC'', ''MIT''] example_answers"
    by (simp add: validated_def example_answers_def)
  have v2: "validated [''ISC'', ''MIT''] example_custom"
    by (simp add: validated_def example_custom_def no_whitespace_def whitespace_def)
  have s1: "spdx example_answers" "name example_answers = Some ''MIT''"
    by (simp_all add: example_answers_def)
  have s2: "\<not> spdx example_custom" "shortName example_custom = Some ''BlueOak''"
    "version example_custom = Some ''1.0.0''"
    by (simp_all add: example_custom_def)
  from identity_resolution [OF v1] identity_resolution [OF v2] v1 v2 s1 s2
  show ?thesis
    by simp
qed

subsection \<open>Runs that end with code 0\<close>

lemma run_success_facts:
  assumes "run e args operator w = (0, w')"
  shows "\<exists>p c c' cc0 nm es r.
      args = [p]
    \<and> cc0_text e w = Inr cc0
    \<and> readFileSync (cwd e) p w = Inr c
    \<and> readFileSync (cwd e) p w' = Inr c'
    \<and> name (resolve_name operator) = Some nm
    \<and> transform e (index_template (Some nm) Promise_toString) = Inr es
    \<and> coerces_data e
    \<and> fs w (path_resolve (cwd e) nm) = None
    \<and> fs w' (path_resolve (cwd e) nm) = Some Dir
    \<and> path_check (fs w') (cwd e) nm (strip_trailing_slashes nm) = None
    \<and> readFileSync (cwd e) (join nm ''LICENSE'') w' = Inr cc0
    \<and> grows (fs w) (fs w')
    \<and> interviews w' = Suc (interviews w)
    \<and> console_error w' = console_error w
    \<and> repos w' (join (cwd e) nm) = Some r
    \<and> map_of (remotes r) ''origin'' = Some (''git@github.com:license-project/'' @ nm @ ''.git'')
    \<and> map message (commits r) = [''Initial commit (by @license-project/generator)'']"
proof -
  let ?w0 = "w\<lparr>interviews := Suc (interviews w)\<rparr>"
  from run_success [OF assms] obtain p c cc0 nm es w1 u1 u2 where
    a: "args = [p]" and
    b: "cc0_text e w = Inr cc0" and
    f: "readFileSync (cwd e) p w = Inr c" and
    n: "name (resolve_name operator) = Some nm" and
    t: "transform e (index_template (Some nm) Promise_toString) = Inr es" and
    wa: "write_artifacts cc0 e nm (make_package (resolve_name operator))
           (index_template (Some nm) Promise_toString) es ?w0 = (Inr u1, w1)" and
    cr: "commit_repository e (resolve_name operator) nm w1 = (Inr u2, w')"
    by (elim exE conjE)
  note A = write_artifacts_Inr [OF wa]
  note B = commit_repository_Inr [OF cr]
  note G = commit_repository_grows [OF cr]
  have g0: "grows (fs w) (fs w1)" using A(6) by simp
  have g: "grows (fs w) (fs w')" using g0 G by (rule grows_trans)
  from readFileSync_grows [OF g f] obtain c' where
    f': "readFileSync (cwd e) p w' = Inr c'" ..
  from B(4) obtain r where
    r1: "repos w' (join (cwd e) nm) = Some r" and
    r2: "map_of (remotes r) ''origin'' = Some (''git@github.com:license-project/'' @ nm @ ''.git'')" and
    r3: "map message (commits r) = [''Initial commit (by @license-project/generator)'']"
    by (elim exE conjE)
  have d0: "fs w (path_resolve (cwd e) nm) = None" using A(2) by simp
  have d1: "fs w' (path_resolve (cwd e) nm) = Some Dir" using G A(3) by (rule grows_Dir)
  have "path_check (fs w) (cwd e) nm (strip_trailing_slashes nm) = None" using A(1) by simp
  with g have pc: "path_check (fs w') (cwd e) nm (strip_trailing_slashes nm) = None"
    by (rule path_check_grows)
  from A(4) have "path_check (fs w1) (cwd e) (join nm ''LICENSE'') (join nm ''LICENSE'') = None"
    and l1: "fs w1 (path_resolve (cwd e) (join nm ''LICENSE'')) = Some (File cc0)"
    by (simp_all add: readFileSync_Inr)
  with G have "path_check (fs w') (cwd e) (join nm ''LICENSE'') (join nm ''LICENSE'') = None"
    by (auto intro: path_check_grows)
  moreover have "fs w' (path_resolve (cwd e) (join nm ''LICENSE'')) = Some (File cc0)"
    using l1 by (rule B(1))
  ultimately have l: "readFileSync (cwd e) (join nm ''LICENSE'') w' = Inr cc0"
    by (simp add: readFileSync_Inr)
  have i: "interviews w' = Suc (interviews w)" using A(8) B(2) by simp
  have ce: "console_error w' = console_error w" using A(9) B(3) by simp
  from a b f f' n t A(5) d0 d1 pc l g i ce r1 r2 r3 show ?thesis
    by (intro exI conjI)
qed

lemma example_run_ok: "fst (run example_env [''MIT.txt''] example_answers example_world) = 0"
  by code_simp

lemma run_fst_snd: "fst (run e args operator w) = c \<Longrightarrow> run e args operator w = (c, snd (run e args operator w))"
  by (cases "run e args operator w") simp

text \<open>
  Claim C6. The \<open>repository.url\<close> of the manifest is
  \<open>https://github.com/license-project/\<close> followed by the name, and after a run that
  ended with code 0 the remote \<open>origin\<close> of the new repository has the URL
  \<open>git@github.com:license-project/\<close>, the name, \<open>.git\<close>.
\<close>

theorem repository_urls:
  "url (repository (make_package (resolve_name operator)))
     = ''https://github.com/license-project/'' @ String (name (resolve_name operator))
   \<and> (run e args operator w = (0, w') \<longrightarrow>
        (\<exists>nm r. name (resolve_name operator) = Some nm
           \<and> repos w' (join (cwd e) nm) = Some r
           \<and> map_of (remotes r) ''origin''
               = Some (''git@github.com:license-project/'' @ nm @ ''.git'')))"
proof (intro conjI impI)
  show "url (repository (make_package (resolve_name operator)))
           = ''https://github.com/license-project/'' @ String (name (resolve_name operator))"
    by (simp add: make_package_def)
  assume "run e args operator w = (0, w')"
  from run_success_facts [OF this] obtain nm r where
    "name (resolve_name operator) = Some nm" "repos w' (join (cwd e) nm) = Some r"
    "map_of (remotes r) ''origin'' = Some (''git@github.com:license-project/'' @ nm @ ''.git'')"
    by (elim exE conjE)
  then show "\<exists>nm r. name (resolve_name operator) = Some nm
                 \<and> repos w' (join (cwd e) nm) = Some r
                 \<and> map_of (remotes r) ''origin''
                     = Some (''git@github.com:license-project/'' @ nm @ ''.git'')"
    by (intro exI conjI)
qed

theorem repository_urls_witness:
  "run example_env [''MIT.txt''] example_answers example_world
     = (0, snd (run example_env [''MIT.txt''] example_answers example_world))
   \<and> name (resolve_name example_answers) = Some ''MIT''
   \<and> url (repository (make_package (resolve_name example_answers)))
       = ''https://github.com/license-project/MIT''
   \<and> (\<exists>r. repos (snd (run example_env [''MIT.txt''] example_answers example_world))
             (join (cwd example_env) ''MIT'') = Some r
          \<and> map_of (remotes r) ''origin'' = Some ''git@github.com:license-project/MIT.git'')"
proof -
  have ok: "run example_env [''MIT.txt''] example_answers example_world
     = (0, snd (run example_env [''MIT.txt''] example_answers example_world))"
    using example_run_ok by (rule run_fst_snd)
  have nm: "name (resolve_name example_answers) = Some ''MIT''"
    by (simp add: resolve_name_def example_answers_def)
  from repository_urls [of example_answers example_env "[''MIT.txt'']" example_world
         "snd (run example_env [''MIT.txt''] example_answers example_world)"] ok nm
  show ?thesis
    by (simp add: String_def)
qed

text \<open>
  Claim C2, as the script has it. Line 155 writes \<open>cc0.text\<close>, the waiver text loaded in
  lines 20-28, to \<open>LICENSE\<close>: after a run that ended with code 0 the file \<open>LICENSE\<close> of
  the package directory holds exactly the text that the bootstrap found when the run
  began.
\<close>

theorem license_file_is_waiver_text:
  assumes "run e args operator w = (0, w')"
  shows "\<exists>nm cc0. name (resolve_name operator) = Some nm
           \<and> cc0_text e w = Inr cc0
           \<and> fst (readFileAsync (cwd e) (join nm ''LICENSE'') w') = Inr cc0"
proof -
  from run_success_facts [OF assms] obtain nm cc0 where
    n: "name (resolve_name operator) = Some nm" and
    b: "cc0_text e w = Inr cc0" and
    l: "readFileSync (cwd e) (join nm ''LICENSE'') w' = Inr cc0"
    by (elim exE conjE)
  from l have "fst (readFileAsync (cwd e) (join nm ''LICENSE'') w') = Inr cc0"
    by (simp add: readFileAsync_def)
  with n b show ?thesis by (intro exI conjI)
qed

theorem license_file_is_waiver_text_witness:
  "run example_env [''MIT.txt''] example_answers example_world
     = (0, snd (run example_env [''MIT.txt''] example_answers example_world))
   \<and> cc0_text example_env example_world
       = Inr (''Creative Commons Legal Code'' @ nl @ nl @ ''CC0 1.0 Universal'')
   \<and> fst (readFileAsync ''/home/op'' (join ''MIT'' ''LICENSE'')
            (snd (run example_env [''MIT.txt''] example_answers example_world)))
       = Inr (''Creative Commons Legal Code'' @ nl @ nl @ ''CC0 1.0 Universal'')"
proof -
  have ok: "run example_env [''MIT.txt''] example_answers example_world
     = (0, snd (run example_env [''MIT.txt''] example_answers example_world))"
    using example_run_ok by (rule run_fst_snd)
  have nm: "name (resolve_name example_answers) = Some ''MIT''"
    by (simp add: resolve_name_def example_answers_def)
  have c: "cwd example_env = ''/home/op''"
    by (simp add: example_env_def)
  have t: "cc0_text example_env example_world
             = Inr (''Creative Commons Legal Code'' @ nl @ nl @ ''CC0 1.0 Universal'')"
    using example_cc0_text by (simp add: example_waiver_text_def)
  from license_file_is_waiver_text [OF ok] ok nm c t
  show ?thesis
    by simp
qed

text \<open>
  The claim as the specification states it fails: in the example run the license file
  named on the command line holds the MIT text, the run ends with code 0, and \<open>LICENSE\<close>
  does not hold the MIT text.
\<close>

theorem license_file_not_input_counterexample:
  "fst (run example_env [''MIT.txt''] example_answers example_world) = 0
   \<and> fst (readFileAsync (cwd example_env) ''MIT.txt'' example_world) = Inr example_license_text
   \<and> fst (readFileAsync (cwd example_env) (join ''MIT'' ''LICENSE'')
            (snd (run example_env [''MIT.txt''] example_answers example_world)))
       \<noteq> Inr example_license_text"
  by code_simp

text \<open>
  Claim C9. With a license that is not SPDX-listed and an empty version (which the
  validation of the version question lets through), the derived name is the short name
  and a hyphen; the manifest is named \<open>@license-project/\<close> and that string, and a run
  that ends with code 0 has created the directory of that name and a remote whose URL
  holds it.
\<close>

theorem unversioned_name:
  assumes "\<not> spdx a" and "shortName a = Some s" and "version a = Some []"
  shows "no_whitespace []
         \<and> name (resolve_name a) = Some (s @ ''-'')
         \<and> pkg_name (make_package (resolve_name a)) = ''@license-project/'' @ s @ ''-''
         \<and> (run e args a w = (0, w') \<longrightarrow>
              fs w (path_resolve (cwd e) (s @ ''-'')) = None
              \<and> fs w' (path_resolve (cwd e) (s @ ''-'')) = Some Dir
              \<and> (\<exists>r. repos w' (join (cwd e) (s @ ''-'')) = Some r
                    \<and> map_of (remotes r) ''origin''
                        = Some (''git@github.com:license-project/'' @ (s @ ''-'') @ ''.git'')))"
proof (intro conjI impI)
  show "no_whitespace []"
    by (simp add: no_whitespace_def)
  show n: "name (resolve_name a) = Some (s @ ''-'')"
    using assms by (simp add: resolve_name_def String_def)
  show "pkg_name (make_package (resolve_name a)) = ''@license-project/'' @ s @ ''-''"
    using n by (simp add: make_package_def String_def)
  assume "run e args a w = (0, w')"
  from run_success_facts [OF this] obtain nm r where
    "name (resolve_name a) = Some nm" and
    f: "fs w (path_resolve (cwd e) nm) = None"
       "fs w' (path_resolve (cwd e) nm) = Some Dir"
       "repos w' (join (cwd e) nm) = Some r"
       "map_of (remotes r) ''origin'' = Some (''git@github.com:license-project/'' @ nm @ ''.git'')"
    by (elim exE conjE)
  with n have nm: "nm = s @ ''-''" by simp
  show "fs w (path_resolve (cwd e) (s @ ''-'')) = None" using f(1) unfolding nm .
  show "fs w' (path_resolve (cwd e) (s @ ''-'')) = Some Dir" using f(2) unfolding nm .
  show "\<exists>r. repos w' (join (cwd e) (s @ ''-'')) = Some r
          \<and> map_of (remotes r) ''origin''
              = Some (''git@github.com:license-project/'' @ (s @ ''-'') @ ''.git'')"
    using f(3,4) unfolding nm by (intro exI conjI)
qed

lemma example_unversioned_ok:
  "fst (run example_env [''MIT.txt''] example_unversioned example_world) = 0"
  by code_simp

theorem unversioned_name_witness:
  "\<not> spdx example_unversioned
   \<and> shortName example_unversioned = Some ''ISC''
   \<and> version example_unversioned = Some []
   \<and> run example_env [''MIT.txt''] example_unversioned example_world
       = (0, snd (run example_env [''MIT.txt''] example_unversioned example_world))
   \<and> name (resolve_name example_unversioned) = Some ''ISC-''
   \<and> pkg_name (make_package (resolve_name example_unversioned)) = ''@license-project/ISC-''
   \<and> fs (snd (run example_env [''MIT.txt''] example_unversioned example_world))
        (path_resolve (cwd example_env) ''ISC-'') = Some Dir
   \<and> (\<exists>r. repos (snd (run example_env [''MIT.txt''] example_unversioned example_world))
             (join (cwd example_env) ''ISC-'') = Some r
          \<and> map_of (remotes r) ''origin'' = Some ''git@github.com:license-project/ISC-.git'')"
proof -
  have h: "\<not> spdx example_unversioned" "shortName example_unversioned = Some ''ISC''"
    "version example_unversioned = Some []"
    by (simp_all add: example_unversioned_def)
  have ok: "run example_env [''MIT.txt''] example_unversioned example_world
       = (0, snd (run example_env [''MIT.txt''] example_unversioned example_world))"
    using example_unversioned_ok by (rule run_fst_snd)
  from unversioned_name [OF h, of example_env "[''MIT.txt'']" example_world
         "snd (run example_env [''MIT.txt''] example_unversioned example_world)"] h ok
  show ?thesis
    by simp
qed

lemma write_artifacts_exists:
  assumes "path_check (fs w) (cwd e) nm (strip_trailing_slashes nm) = None"
    and "fs w (path_resolve (cwd e) nm) = Some n"
  shows "write_artifacts cc0 e nm pkg idx es w = (Inl (EEXIST nm), w)"
  using assms by (simp add: write_artifacts_def await_def mkdirAsync_def Let_def)

lemma cc0_text_grows:
  assumes "grows (fs w) (fs w')" and "cc0_text e w = Inr cc0"
  shows "\<exists>t. cc0_text e w' = Inr t"
proof (cases "cc0_package e")
  case None
  with assms(2) have "readFileSync (cwd e) (dirname e @ ''/cc0.txt'') w = Inr cc0"
    by (simp add: cc0_text_def)
  from readFileSync_grows [OF assms(1) this] None show ?thesis
    by (simp add: cc0_text_def)
next
  case (Some t)
  then show ?thesis
    by (simp add: cc0_text_def)
qed

text \<open>
  Claim C8. When a run has ended with code 0 and a second run with the same derived
  name starts from the world the first one left, the second run fails when it creates
  the directory: it ends with code 1 on the error \<open>EEXIST\<close> for that name, and the world
  after it differs from the world before it by the interview held and the error
  printed only, so no file of the first run is changed.
\<close>

theorem second_run_fails_at_mkdir:
  assumes "run e args first w = (0, w1)"
    and "name (resolve_name second) = name (resolve_name first)"
  shows "\<exists>nm. name (resolve_name first) = Some nm
           \<and> run e args second w1 =
               (1, w1\<lparr>interviews := Suc (interviews w1),
                      console_error := console_error w1 @ [Thrown (EEXIST nm)]\<rparr>)"
proof -
  let ?w2 = "w1\<lparr>interviews := Suc (interviews w1)\<rparr>"
  from run_success [OF assms(1)] obtain gitName gitEmail where
    g: "git_config e ''user.name'' = Some gitName" "git_config e ''user.email'' = Some gitEmail"
    by (elim exE conjE) auto
  from run_success_facts [OF assms(1)] obtain p c' cc0 nm es where
    a: "args = [p]" and
    b: "cc0_text e w = Inr cc0" and
    f: "readFileSync (cwd e) p w1 = Inr c'" and
    n: "name (resolve_name first) = Some nm" and
    t: "transform e (index_template (Some nm) Promise_toString) = Inr es" and
    d: "fs w1 (path_resolve (cwd e) nm) = Some Dir" and
    pc: "path_check (fs w1) (cwd e) nm (strip_trailing_slashes nm) = None" and
    gr: "grows (fs w) (fs w1)"
    by (elim exE conjE)
  from cc0_text_grows [OF gr b] obtain cc0' where b': "cc0_text e w1 = Inr cc0'" ..
  have n2: "name (resolve_name second) = Some nm"
    using assms(2) n by simp
  have d': "fs ?w2 (path_resolve (cwd e) nm) = Some Dir"
    using d by simp
  have pc': "path_check (fs ?w2) (cwd e) nm (strip_trailing_slashes nm) = None"
    using pc by simp
  have "main cc0' e [p] second w1 = (Inl (EEXIST nm), ?w2)"
    unfolding main_one_arg
    by (simp add: f g n2 t Let_def write_artifacts_exists [OF pc' d'])
  then have "run e args second w1 =
               (1, w1\<lparr>interviews := Suc (interviews w1),
                      console_error := console_error w1 @ [Thrown (EEXIST nm)]\<rparr>)"
    unfolding a by (simp add: run_def b')
  with n show ?thesis by (intro exI conjI)
qed

theorem second_run_fails_at_mkdir_witness:
  "run example_env [''MIT.txt''] example_answers example_world
     = (0, snd (run example_env [''MIT.txt''] example_answers example_world))
   \<and> name (resolve_name (example_answers\<lparr>longName := ''MIT License, again''\<rparr>))
       = name (resolve_name example_answers)
   \<and> fst (run example_env [''MIT.txt''] (example_answers\<lparr>longName := ''MIT License, again''\<rparr>)
            (snd (run example_env [''MIT.txt''] example_answers example_world))) = 1
   \<and> fs (snd (run example_env [''MIT.txt''] (example_answers\<lparr>longName := ''MIT License, again''\<rparr>)
            (snd (run example_env [''MIT.txt''] example_answers example_world))))
       = fs (snd (run example_env [''MIT.txt''] example_answers example_world))
   \<and> last (console_error (snd (run example_env [''MIT.txt'']
            (example_answers\<lparr>longName := ''MIT License, again''\<rparr>)
            (snd (run example_env [''MIT.txt''] example_answers example_world)))))
       = Thrown (EEXIST ''MIT'')"
proof -
  have ok: "run example_env [''MIT.txt''] example_answers example_world
     = (0, snd (run example_env [''MIT.txt''] example_answers example_world))"
    using example_run_ok by (rule run_fst_snd)
  have same: "name (resolve_name (example_answers\<lparr>longName := ''MIT License, again''\<rparr>))
       = name (resolve_name example_answers)"
    by (simp add: resolve_name_def example_answers_def)
  have nm: "name (resolve_name example_answers) = Some ''MIT''"
    by (simp add: resolve_name_def example_answers_def)
  from second_run_fails_at_mkdir [OF ok same] ok same nm
  show ?thesis
    by simp
qed

subsection \<open>The license file named on the command line\<close>







subsection \<open>Where the script departs from the specification\<close>

text \<open>
  Claim C1 does not hold of the script. Line 36 awaits \<open>readFileAsync(...).toString('utf-8')\<close>:
  the string form of the promise, not the text read. In the example run the license file
  holds the MIT text, the run ends with code 0, and the \<open>text\<close> binding of \<open>index.mjs\<close>
  decodes to \<open>[object Promise]\<close>. The quoting of line 139 is not at fault
  (\<open>unquote_JSON_stringify\<close>): it is given the wrong string.
\<close>

theorem text_binding_is_promise_string:
  "fst (readFileAsync (cwd example_env) ''MIT.txt'' example_world) = Inr example_license_text
   \<and> fst (run example_env [''MIT.txt''] example_answers example_world) = 0
   \<and> exported_binding (cwd example_env) (join ''MIT'' ''index.mjs'') ''text''
        (snd (run example_env [''MIT.txt''] example_answers example_world))
       = Some ''[object Promise]''
   \<and> example_license_text \<noteq> ''[object Promise]''"
  by code_simp

text \<open>
  Claim C3 does not hold of the script. Nothing after the interview reads
  \<open>answers.license\<close>; the only mention of the answer is the \<open>validate\<close> callback handed
  to the confirm question (line 94). With the answer \<open>false\<close> the example run ends with
  code 0, having created the directory, the four files, the commit and the remote.
\<close>

theorem refusal_still_generates:
  "\<not> license (example_answers\<lparr>license := False\<rparr>)
   \<and> fst (run example_env [''MIT.txt''] (example_answers\<lparr>license := False\<rparr>) example_world) = 0
   \<and> map (fs (snd (run example_env [''MIT.txt''] (example_answers\<lparr>license := False\<rparr>)
                  example_world)))
        [''/home/op/MIT'', ''/home/op/MIT/LICENSE'']
       = [Some Dir, Some (File example_waiver_text)]
   \<and> map_option (\<lambda>r. (map message (commits r), remotes r))
        (repos (snd (run example_env [''MIT.txt''] (example_answers\<lparr>license := False\<rparr>)
                  example_world)) ''/home/op/MIT'')
       = Some ([''Initial commit (by @license-project/generator)''],
               [(''origin'', ''git@github.com:license-project/MIT.git'')])"
  by code_simp

text \<open>
  Claim C4 does not hold of the script. Line 154 hands \<open>writeFile\<close> the result object of
  the compiler, not its \<open>code\<close>. Where \<open>writeFile\<close> coerces its data, \<open>index.js\<close> holds
  \<open>[object Object]\<close>, which is not the compiled module; where it does not, the write is
  rejected, the run ends with code 1 and \<open>index.js\<close> is not there.
\<close>

theorem index_js_is_object_string:
  "map_sum id code (transform example_env (index_template (Some ''MIT'') Promise_toString))
     = Inr (''/* compiled */'' @ index_template (Some ''MIT'') Promise_toString)
   \<and> fst (run example_env [''MIT.txt''] example_answers example_world) = 0
   \<and> fst (readFileAsync (cwd example_env) (join ''MIT'' ''index.js'')
            (snd (run example_env [''MIT.txt''] example_answers example_world)))
       = Inr ''[object Object]''
   \<and> fst (run (example_env\<lparr>coerces_data := False\<rparr>) [''MIT.txt''] example_answers
            example_world) = 1
   \<and> console_error (snd (run (example_env\<lparr>coerces_data := False\<rparr>) [''MIT.txt'']
            example_answers example_world))
       = [Thrown (ERR_INVALID_ARG_TYPE ''data'')]
   \<and> map (fs (snd (run (example_env\<lparr>coerces_data := False\<rparr>) [''MIT.txt'']
            example_answers example_world)))
        [''/home/op/MIT'', ''/home/op/MIT/index.js'', ''/home/op/MIT/LICENSE'']
       = [Some Dir, None, None]"
  by code_simp

end
